theory Spec2Isabelle
  imports Complex_Main
begin

section \<open>JavaScript values\<close>

text \<open>
  The form state is dynamically typed (\<^verbatim>\<open>age: '' as any\<close>, \<^verbatim>\<open>value: any\<close>), so the
  fields hold JavaScript values. A number is an IEEE double: a finite double is embedded
  in the reals by its exact value (\<open>-0\<close> and \<open>0\<close> compare equal and are one value here),
  and the three special values are constructors of their own.
\<close>

datatype jsnum = NaN | NegInf | Fin real | PosInf

datatype jsval =
    JUndefined
  | JNull
  | JBool bool
  | JNum jsnum
  | JStr string
  | JArr "jsval list"
  | JObj "(string \<times> jsval) list"

text \<open>The relational operators on numbers: every comparison with \<open>NaN\<close> is false.\<close>

fun num_lt :: "jsnum \<Rightarrow> jsnum \<Rightarrow> bool" where
  "num_lt NaN y = False"
| "num_lt x NaN = False"
| "num_lt x NegInf = False"
| "num_lt NegInf y = True"
| "num_lt PosInf y = False"
| "num_lt x PosInf = True"
| "num_lt (Fin x) (Fin y) = (x < y)"

definition num_gt :: "jsnum \<Rightarrow> jsnum \<Rightarrow> bool" where
  "num_gt x y = num_lt y x"


fun typeof :: "jsval \<Rightarrow> string" where
  "typeof JUndefined = ''undefined''"
| "typeof JNull = ''object''"
| "typeof (JBool b) = ''boolean''"
| "typeof (JNum n) = ''number''"
| "typeof (JStr s) = ''string''"
| "typeof (JArr xs) = ''object''"
| "typeof (JObj kvs) = ''object''"

text \<open>
  \<^verbatim>\<open>a < b\<close> and \<^verbatim>\<open>a > b\<close> on values. \<^verbatim>\<open>validateInputs\<close> evaluates them only
  after \<^verbatim>\<open>typeof a !== 'number'\<close> has failed, against a numeric literal, so only the
  case of two numbers is modelled.
\<close>

fun js_lt :: "jsval \<Rightarrow> jsval \<Rightarrow> bool" where
  "js_lt (JNum a) (JNum b) = num_lt a b"
| "js_lt a b = False"

fun js_gt :: "jsval \<Rightarrow> jsval \<Rightarrow> bool" where
  "js_gt (JNum a) (JNum b) = num_gt a b"
| "js_gt a b = False"

text \<open>\<^verbatim>\<open>ToBoolean\<close>, the truthiness that \<^verbatim>\<open>if (v)\<close> tests.\<close>

fun ToBoolean :: "jsval \<Rightarrow> bool" where
  "ToBoolean JUndefined = False"
| "ToBoolean JNull = False"
| "ToBoolean (JBool b) = b"
| "ToBoolean (JNum n) = (n \<noteq> NaN \<and> n \<noteq> Fin 0)"
| "ToBoolean (JStr s) = (s \<noteq> [])"
| "ToBoolean (JArr xs) = True"
| "ToBoolean (JObj kvs) = True"


section \<open>The domain model (types.ts)\<close>

text \<open>
  \<^verbatim>\<open>keyof PatientData\<close>. A \<^verbatim>\<open>PatientData\<close> object has exactly these ten keys, so it is
  a total function from keys to values; \<^verbatim>\<open>{ ...prev, [field]: value }\<close> is the function
  update. The string enums are their string values at run time.
\<close>

datatype key =
    gender | age | hypertension | heartDisease | everMarried
  | workType | residenceType | avgGlucoseLevel | bmi | smokingStatus

type_synonym PatientData = "key \<Rightarrow> jsval"

definition Gender_Male :: jsval where "Gender_Male = JStr ''Male''"
definition WorkType_Private :: jsval where "WorkType_Private = JStr ''Private''"
definition ResidenceType_Urban :: jsval where "ResidenceType_Urban = JStr ''Urban''"
definition SmokingStatus_NeverSmoked :: jsval where
  "SmokingStatus_NeverSmoked = JStr ''never smoked''"

text \<open>
  \<^verbatim>\<open>Partial<Record<keyof PatientData, string>>\<close>: a key is absent (\<open>None\<close>), or
  present with a message, or present with \<^verbatim>\<open>undefined\<close> (what \<^verbatim>\<open>handleInputChange\<close>
  stores).
\<close>

type_synonym ErrorMap = "key \<rightharpoonup> jsval"

text \<open>Property access \<^verbatim>\<open>validationErrors[field]\<close>: an absent key reads as \<^verbatim>\<open>undefined\<close>.\<close>

definition get_prop :: "ErrorMap \<Rightarrow> key \<Rightarrow> jsval" where
  "get_prop m k = (case m k of None \<Rightarrow> JUndefined | Some v \<Rightarrow> v)"


section \<open>The component state (App.tsx)\<close>

text \<open>
  The five \<^verbatim>\<open>useState\<close> cells of \<^verbatim>\<open>App\<close>. \<open>result\<close> is \<^verbatim>\<open>PredictionResult | null\<close>
  (\<open>JNull\<close> for \<^verbatim>\<open>null\<close>), \<open>error\<close> is \<^verbatim>\<open>string | null\<close> (\<open>None\<close> for \<^verbatim>\<open>null\<close>).
\<close>

record app_state =
  formData :: PatientData
  result :: jsval
  loading :: bool
  error :: "string option"
  validationErrors :: ErrorMap

definition initial_formData :: PatientData where
  "initial_formData = (\<lambda>k. case k of
       gender \<Rightarrow> Gender_Male
     | age \<Rightarrow> JStr ''''
     | hypertension \<Rightarrow> JBool False
     | heartDisease \<Rightarrow> JBool False
     | everMarried \<Rightarrow> JBool True
     | workType \<Rightarrow> WorkType_Private
     | residenceType \<Rightarrow> ResidenceType_Urban
     | avgGlucoseLevel \<Rightarrow> JStr ''''
     | bmi \<Rightarrow> JStr ''''
     | smokingStatus \<Rightarrow> SmokingStatus_NeverSmoked)"

definition initial_state :: app_state where
  "initial_state = \<lparr> formData = initial_formData, result = JNull, loading = False,
                     error = None, validationErrors = Map.empty \<rparr>"


section \<open>validateInputs\<close>

text \<open>
  The three blocks of \<^verbatim>\<open>validateInputs\<close>, each a transformer of the two locals
  \<^verbatim>\<open>errors\<close> and \<^verbatim>\<open>isValid\<close>, in the order of the source.
\<close>

definition validate_age :: "PatientData \<Rightarrow> ErrorMap \<times> bool \<Rightarrow> ErrorMap \<times> bool" where
  "validate_age fd = (\<lambda>(errors, isValid).
     if fd age = JStr '''' \<or> typeof (fd age) \<noteq> ''number''
     then (errors(age \<mapsto> JStr ''Age is required.''), False)
     else if js_lt (fd age) (JNum (Fin 0)) \<or> js_gt (fd age) (JNum (Fin 120))
     then (errors(age \<mapsto> JStr ''Please enter a valid age (0-120).''), False)
     else (errors, isValid))"

definition validate_glucose :: "PatientData \<Rightarrow> ErrorMap \<times> bool \<Rightarrow> ErrorMap \<times> bool" where
  "validate_glucose fd = (\<lambda>(errors, isValid).
     if fd avgGlucoseLevel = JStr '''' \<or> typeof (fd avgGlucoseLevel) \<noteq> ''number''
     then (errors(avgGlucoseLevel \<mapsto> JStr ''Glucose level is required.''), False)
     else if js_lt (fd avgGlucoseLevel) (JNum (Fin 30)) \<or> js_gt (fd avgGlucoseLevel) (JNum (Fin 600))
     then (errors(avgGlucoseLevel \<mapsto> JStr ''Value must be between 30 and 600 mg/dL.''), False)
     else (errors, isValid))"

definition validate_bmi :: "PatientData \<Rightarrow> ErrorMap \<times> bool \<Rightarrow> ErrorMap \<times> bool" where
  "validate_bmi fd = (\<lambda>(errors, isValid).
     if fd bmi = JStr '''' \<or> typeof (fd bmi) \<noteq> ''number''
     then (errors(bmi \<mapsto> JStr ''BMI is required.''), False)
     else if js_lt (fd bmi) (JNum (Fin 10)) \<or> js_gt (fd bmi) (JNum (Fin 100))
     then (errors(bmi \<mapsto> JStr ''Value must be between 10 and 100.''), False)
     else (errors, isValid))"

text \<open>
  The locals after the three blocks, from \<^verbatim>\<open>errors = {}\<close> and \<^verbatim>\<open>isValid = true\<close>.
\<close>

definition validate_locals :: "PatientData \<Rightarrow> ErrorMap \<times> bool" where
  "validate_locals fd =
     validate_bmi fd (validate_glucose fd (validate_age fd (Map.empty, True)))"

text \<open>
  \<^verbatim>\<open>validateInputs\<close> reads \<^verbatim>\<open>formData\<close> from the component state, stores the error
  map with \<^verbatim>\<open>setValidationErrors(errors)\<close> and returns \<^verbatim>\<open>isValid\<close>.
\<close>

definition validateInputs :: "app_state \<Rightarrow> bool \<times> app_state" where
  "validateInputs s =
     (let (errors, isValid) = validate_locals (formData s)
      in (isValid, s\<lparr>validationErrors := errors\<rparr>))"


section \<open>handleInputChange\<close>

text \<open>
  \<^verbatim>\<open>setFormData(prev => ({ ...prev, [field]: value }))\<close>, then the error of this field
  is overwritten with \<^verbatim>\<open>undefined\<close> when it is truthy. The handler runs on the state
  that was rendered, which is the current state when one event is handled at a time.
\<close>

definition handleInputChange :: "key \<Rightarrow> jsval \<Rightarrow> app_state \<Rightarrow> app_state" where
  "handleInputChange field val s =
     (let s1 = s\<lparr>formData := (formData s)(field := val)\<rparr>
      in if ToBoolean (get_prop (validationErrors s) field)
         then s1\<lparr>validationErrors := (validationErrors s1)(field \<mapsto> JUndefined)\<rparr>
         else s1)"


section \<open>The prediction gateway (services/predictionService.ts)\<close>

text \<open>A thrown JavaScript error: the name of its class and its message.\<close>

datatype exn = Exn string string

text \<open>
  How the awaited \<^verbatim>\<open>ai.models.generateContent(...)\<close> ends: it rejects with an error, or
  it resolves to a response whose \<^verbatim>\<open>text\<close> is a string or \<^verbatim>\<open>undefined\<close>.
\<close>

datatype response = Rejected exn | Resolved "string option"

subsection \<open>JSON.parse\<close>

text \<open>
  The built-in \<^verbatim>\<open>JSON.parse\<close>, by the JSON grammar: white space, the three literals,
  numbers, strings with their escapes, arrays and objects; anything else is a
  \<^verbatim>\<open>SyntaxError\<close> (whose message depends on the engine, one text stands for it here).
  A text is a string of bytes in UTF-8, and so is a parsed string: a \<^verbatim>\<open>\uXXXX\<close> escape
  is stored as the UTF-8 bytes of its code point. The recursion carries fuel, more than
  twice the length of the text: of two calls that follow one another, at least one reads
  a character of the text.
\<close>

definition is_ws :: "char \<Rightarrow> bool" where
  "is_ws c = (c = CHR 0x20 \<or> c = CHR 0x09 \<or> c = CHR 0x0A \<or> c = CHR 0x0D)"

fun skip_ws :: "string \<Rightarrow> string" where
  "skip_ws [] = []"
| "skip_ws (c # cs) = (if is_ws c then skip_ws cs else c # cs)"

definition is_digit :: "char \<Rightarrow> bool" where
  "is_digit c = (48 \<le> (of_char c :: nat) \<and> (of_char c :: nat) \<le> 57)"

definition digit_val :: "char \<Rightarrow> nat" where
  "digit_val c = of_char c - 48"

definition hex_val :: "char \<Rightarrow> nat option" where
  "hex_val c = (let n = (of_char c :: nat) in
     if 48 \<le> n \<and> n \<le> 57 then Some (n - 48)
     else if 65 \<le> n \<and> n \<le> 70 then Some (n - 55)
     else if 97 \<le> n \<and> n \<le> 102 then Some (n - 87)
     else None)"

fun hex4 :: "string \<Rightarrow> nat option" where
  "hex4 [a, b, c, d] =
     (case (hex_val a, hex_val b, hex_val c, hex_val d) of
        (Some w, Some x, Some y, Some z) \<Rightarrow> Some (((w * 16 + x) * 16 + y) * 16 + z)
      | _ \<Rightarrow> None)"
| "hex4 cs = None"

definition utf8 :: "nat \<Rightarrow> string" where
  "utf8 cp =
     (if cp < 0x80 then [char_of cp]
      else if cp < 0x800 then [char_of (0xC0 + cp div 64), char_of (0x80 + cp mod 64)]
      else if cp < 0x10000 then
        [char_of (0xE0 + cp div 4096), char_of (0x80 + cp div 64 mod 64),
         char_of (0x80 + cp mod 64)]
      else
        [char_of (0xF0 + cp div 262144), char_of (0x80 + cp div 4096 mod 64),
         char_of (0x80 + cp div 64 mod 64), char_of (0x80 + cp mod 64)])"

definition simple_escape :: "char \<Rightarrow> char option" where
  "simple_escape e =
     (if e = CHR 0x22 then Some (CHR 0x22)
      else if e = CHR 0x5C then Some (CHR 0x5C)
      else if e = CHR ''/'' then Some (CHR ''/'')
      else if e = CHR ''b'' then Some (CHR 0x08)
      else if e = CHR ''f'' then Some (CHR 0x0C)
      else if e = CHR ''n'' then Some (CHR 0x0A)
      else if e = CHR ''r'' then Some (CHR 0x0D)
      else if e = CHR ''t'' then Some (CHR 0x09)
      else None)"

fun parse_string :: "nat \<Rightarrow> string \<Rightarrow> string \<Rightarrow> (string \<times> string) option" where
  "parse_string 0 acc s = None"
| "parse_string (Suc n) acc [] = None"
| "parse_string (Suc n) acc (c # cs) =
     (if c = CHR 0x22 then Some (acc, cs)
      else if (of_char c :: nat) < 0x20 then None
      else if c \<noteq> CHR 0x5C then parse_string n (acc @ [c]) cs
      else (case cs of
          [] \<Rightarrow> None
        | e # r \<Rightarrow>
            if e = CHR ''u'' then
              (case hex4 (take 4 r) of
                 None \<Rightarrow> None
               | Some hi \<Rightarrow>
                   (case (if 0xD800 \<le> hi \<and> hi < 0xDC00 \<and> take 2 (drop 4 r) = [CHR 0x5C, CHR ''u'']
                          then hex4 (take 4 (drop 6 r)) else None) of
                      Some lo \<Rightarrow>
                        if 0xDC00 \<le> lo \<and> lo < 0xE000
                        then parse_string n
                               (acc @ utf8 (0x10000 + (hi - 0xD800) * 1024 + (lo - 0xDC00)))
                               (drop 10 r)
                        else parse_string n (acc @ utf8 hi) (drop 4 r)
                    | None \<Rightarrow> parse_string n (acc @ utf8 hi) (drop 4 r)))
            else (case simple_escape e of
                    None \<Rightarrow> None
                  | Some d \<Rightarrow> parse_string n (acc @ [d]) r)))"

fun take_digits :: "string \<Rightarrow> string \<times> string" where
  "take_digits [] = ([], [])"
| "take_digits (c # cs) =
     (if is_digit c then (let (ds, r) = take_digits cs in (c # ds, r)) else ([], c # cs))"

definition digits_val :: "string \<Rightarrow> nat" where
  "digits_val ds = foldl (\<lambda>a c. a * 10 + digit_val c) 0 ds"

text \<open>
  A number is \<^verbatim>\<open>[-] int [frac] [exp]\<close>; its value is the decimal's exact value. (JavaScript
  rounds it to the nearest double, which is that value whenever it is representable, as
  every integer below \<open>2 ^ 53\<close> is.)
\<close>

definition parse_number :: "string \<Rightarrow> (jsval \<times> string) option" where
  "parse_number s =
     (let (neg, s1) = (case s of c # r \<Rightarrow> if c = CHR ''-'' then (True, r) else (False, s) | [] \<Rightarrow> (False, s));
          (ip, s2) = take_digits s1
      in if ip = [] \<or> (case ip of z # d # ds \<Rightarrow> z = CHR ''0'' | _ \<Rightarrow> False) then None
         else
           (let (fp, s3, okf) =
                  (case s2 of
                     c # r \<Rightarrow> if c = CHR ''.''
                               then (let (ds, r') = take_digits r in (ds, r', ds \<noteq> []))
                               else ([], s2, True)
                   | [] \<Rightarrow> ([], s2, True));
                (eneg, ep, s4, oke) =
                  (case s3 of
                     c # r \<Rightarrow>
                       if c = CHR ''e'' \<or> c = CHR ''E''
                       then (let (sg, r1) = (case r of d # r0 \<Rightarrow>
                                                 if d = CHR ''-'' then (True, r0)
                                                 else if d = CHR ''+'' then (False, r0)
                                                 else (False, r)
                                               | [] \<Rightarrow> (False, r));
                                 (ds, r2) = take_digits r1
                             in (sg, ds, r2, ds \<noteq> []))
                       else (False, [], s3, True)
                   | [] \<Rightarrow> (False, [], s3, True))
            in if okf \<and> oke
               then
                 (let m = real (digits_val (ip @ fp));
                      e = (if eneg then - int (digits_val ep) else int (digits_val ep))
                          - int (length fp);
                      x = (if 0 \<le> e then m * 10 ^ nat e else m / 10 ^ nat (- e))
                  in Some (JNum (Fin (if neg then - x else x)), s4))
               else None))"

fun obj_set :: "(string \<times> jsval) list \<Rightarrow> string \<Rightarrow> jsval \<Rightarrow> (string \<times> jsval) list" where
  "obj_set [] k v = [(k, v)]"
| "obj_set ((k', v') # kvs) k v = (if k' = k then (k, v) # kvs else (k', v') # obj_set kvs k v)"

definition strip_prefix :: "string \<Rightarrow> string \<Rightarrow> string option" where
  "strip_prefix p s = (if take (length p) s = p then Some (drop (length p) s) else None)"

fun parse_value :: "nat \<Rightarrow> string \<Rightarrow> (jsval \<times> string) option"
  and parse_elements :: "nat \<Rightarrow> jsval list \<Rightarrow> string \<Rightarrow> (jsval list \<times> string) option"
  and parse_members ::
    "nat \<Rightarrow> (string \<times> jsval) list \<Rightarrow> string \<Rightarrow> ((string \<times> jsval) list \<times> string) option"
where
  "parse_value 0 s = None"
| "parse_value (Suc n) s =
     (case skip_ws s of
        [] \<Rightarrow> None
      | c # cs \<Rightarrow>
          if c = CHR ''{'' then
            (case skip_ws cs of
               [] \<Rightarrow> None
             | d # r \<Rightarrow>
                 if d = CHR ''}'' then Some (JObj [], r)
                 else map_option (\<lambda>(kvs, r'). (JObj kvs, r')) (parse_members n [] cs))
          else if c = CHR ''['' then
            (case skip_ws cs of
               [] \<Rightarrow> None
             | d # r \<Rightarrow>
                 if d = CHR '']'' then Some (JArr [], r)
                 else map_option (\<lambda>(vs, r'). (JArr vs, r')) (parse_elements n [] cs))
          else if c = CHR 0x22 then
            map_option (\<lambda>(str, r). (JStr str, r)) (parse_string (length cs) [] cs)
          else if c = CHR ''t'' then map_option (Pair (JBool True)) (strip_prefix ''rue'' cs)
          else if c = CHR ''f'' then map_option (Pair (JBool False)) (strip_prefix ''alse'' cs)
          else if c = CHR ''n'' then map_option (Pair JNull) (strip_prefix ''ull'' cs)
          else parse_number (c # cs))"
| "parse_elements 0 acc s = None"
| "parse_elements (Suc n) acc s =
     (case parse_value n s of
        None \<Rightarrow> None
      | Some (v, r) \<Rightarrow>
          (case skip_ws r of
             [] \<Rightarrow> None
           | d # r' \<Rightarrow>
               if d = CHR '','' then parse_elements n (acc @ [v]) r'
               else if d = CHR '']'' then Some (acc @ [v], r')
               else None))"
| "parse_members 0 acc s = None"
| "parse_members (Suc n) acc s =
     (case skip_ws s of
        [] \<Rightarrow> None
      | q # s1 \<Rightarrow>
          if q \<noteq> CHR 0x22 then None
          else
            (case parse_string (length s1) [] s1 of
               None \<Rightarrow> None
             | Some (k, s2) \<Rightarrow>
                 (case skip_ws s2 of
                    [] \<Rightarrow> None
                  | col # s3 \<Rightarrow>
                      if col \<noteq> CHR '':'' then None
                      else
                        (case parse_value n s3 of
                           None \<Rightarrow> None
                         | Some (v, s4) \<Rightarrow>
                             (case skip_ws s4 of
                                [] \<Rightarrow> None
                              | d # s5 \<Rightarrow>
                                  if d = CHR '','' then parse_members n (obj_set acc k v) s5
                                  else if d = CHR ''}'' then Some (obj_set acc k v, s5)
                                  else None)))))"

definition JSON_parse :: "string \<Rightarrow> exn + jsval" where
  "JSON_parse text =
     (case parse_value (Suc (2 * length text)) text of
        None \<Rightarrow> Inl (Exn ''SyntaxError'' ''Unexpected token in JSON'')
      | Some (v, r) \<Rightarrow>
          if skip_ws r = [] then Inr v
          else Inl (Exn ''SyntaxError'' ''Unexpected token in JSON''))"

text \<open>
  The \<^verbatim>\<open>responseSchema\<close> sent with the request: an object whose three required
  properties are a boolean, a number and one of three strings.
\<close>

fun conforms_responseSchema :: "jsval \<Rightarrow> bool" where
  "conforms_responseSchema (JObj kvs) =
     ((case map_of kvs ''strokePrediction'' of Some (JBool b) \<Rightarrow> True | _ \<Rightarrow> False) \<and>
      (case map_of kvs ''probability'' of Some (JNum n) \<Rightarrow> True | _ \<Rightarrow> False) \<and>
      (case map_of kvs ''riskLevel'' of
         Some (JStr s) \<Rightarrow> s \<in> set [''Low Risk'', ''Moderate Risk'', ''High Risk'']
       | _ \<Rightarrow> False))"
| "conforms_responseSchema v = False"

subsection \<open>predictStrokeRisk\<close>

text \<open>
  \<^verbatim>\<open>predictStrokeRisk(data)\<close> from the point where the remote call has ended. The
  \<^verbatim>\<open>catch\<close> block logs and rethrows the error it caught, so every error leaves the
  function as it was thrown. \<^verbatim>\<open>if (response.text)\<close> is false for \<^verbatim>\<open>undefined\<close> and
  for the empty string.
\<close>

definition predictStrokeRisk :: "PatientData \<Rightarrow> response \<Rightarrow> exn + jsval" where
  "predictStrokeRisk data r =
     (case r of
        Rejected e \<Rightarrow> Inl e
      | Resolved txt \<Rightarrow>
          (case txt of
             None \<Rightarrow> Inl (Exn ''Error'' ''No response from AI model'')
           | Some t \<Rightarrow>
               if t \<noteq> [] then JSON_parse t
               else Inl (Exn ''Error'' ''No response from AI model'')))"


section \<open>handleSubmit and the submit button\<close>

text \<open>
  \<^verbatim>\<open>handleSubmit\<close> up to its \<^verbatim>\<open>await\<close>: the new state and, when the inputs are valid,
  the data that \<^verbatim>\<open>predictStrokeRisk\<close> is called with.
\<close>

definition handleSubmit_begin :: "app_state \<Rightarrow> app_state \<times> PatientData option" where
  "handleSubmit_begin s =
     (let s1 = s\<lparr>error := None\<rparr>;
          s2 = s1\<lparr>result := JNull\<rparr>;
          (isValid, s3) = validateInputs s2
      in if \<not> isValid
         then (s3\<lparr>error := Some ''Please correct the errors in the highlighted fields.''\<rparr>, None)
         else (s3\<lparr>loading := True\<rparr>, Some (formData s)))"

text \<open>
  \<^verbatim>\<open>handleSubmit\<close> after the \<^verbatim>\<open>await\<close>, when the promise of \<^verbatim>\<open>predictStrokeRisk\<close>
  has settled: \<^verbatim>\<open>try\<close> or \<^verbatim>\<open>catch\<close>, then \<^verbatim>\<open>finally\<close>.
\<close>

definition handleSubmit_settle :: "exn + jsval \<Rightarrow> app_state \<Rightarrow> app_state" where
  "handleSubmit_settle r s =
     (let s1 = (case r of
                  Inr prediction \<Rightarrow> s\<lparr>result := prediction\<rparr>
                | Inl err \<Rightarrow> s\<lparr>error := Some ''Failed to generate prediction. Please try again.''\<rparr>)
      in s1\<lparr>loading := False\<rparr>)"

text \<open>
  The running page: the component state, the data of every remote call made so far, and
  the number of calls that have not settled yet.
\<close>

record page =
  app :: app_state
  issued :: "PatientData list"
  in_flight :: nat

definition initial_page :: page where
  "initial_page = \<lparr> app = initial_state, issued = [], in_flight = 0 \<rparr>"

text \<open>
  What can happen to the page: an input changes, the button is clicked, a pending
  promise settles. The button carries \<^verbatim>\<open>disabled={loading}\<close>, and a disabled button
  does not run its \<^verbatim>\<open>onClick\<close>; \<^verbatim>\<open>handleSubmit\<close> has no other caller.
\<close>

datatype event = Change key jsval | Click | Settled "exn + jsval"

fun step :: "page \<Rightarrow> event \<Rightarrow> page" where
  "step p (Change field val) = p\<lparr>app := handleInputChange field val (app p)\<rparr>"
| "step p Click =
     (if loading (app p) then p
      else (case handleSubmit_begin (app p) of
              (s, None) \<Rightarrow> p\<lparr>app := s\<rparr>
            | (s, Some data) \<Rightarrow>
                p\<lparr>app := s, issued := issued p @ [data], in_flight := Suc (in_flight p)\<rparr>))"
| "step p (Settled r) =
     (if in_flight p = 0 then p
      else p\<lparr>app := handleSubmit_settle r (app p), in_flight := in_flight p - 1\<rparr>)"

definition run :: "event list \<Rightarrow> page" where
  "run evs = foldl step initial_page evs"



section \<open>Notions of the specification\<close>



text \<open>The inputs of the end-to-end scenarios A and B, on the default form.\<close>

definition scenario_A :: PatientData where
  "scenario_A = initial_formData(age := JNum (Fin 45), avgGlucoseLevel := JNum (Fin 105.5),
                                 bmi := JNum (Fin 28.4))"

definition scenario_B :: PatientData where
  "scenario_B = initial_formData(age := JNum (Fin 150), avgGlucoseLevel := JNum (Fin 700),
                                 bmi := JNum (Fin 5))"


text \<open>The user fills the three numeric inputs with the values of scenario A.\<close>

definition fill_A :: "event list" where
  "fill_A = [Change age (JNum (Fin 45)), Change avgGlucoseLevel (JNum (Fin 105.5)),
             Change bmi (JNum (Fin 28.4))]"


text \<open>
  Three replies of the remote service: the well-formed one of the specification, one
  whose probability lies outside \<open>[0, 100]\<close>, and one that is valid JSON but not of the
  shape of the \<^verbatim>\<open>responseSchema\<close> (its probability is a string).
\<close>

definition well_formed_reply :: string where
  \<open>well_formed_reply = ''{"strokePrediction":true,"probability":72,"riskLevel":"High Risk"}''\<close>

definition out_of_range_reply :: string where
  \<open>out_of_range_reply = ''{"strokePrediction":true,"probability":172,"riskLevel":"High Risk"}''\<close>

definition ill_shaped_reply :: string where
  \<open>ill_shaped_reply = ''{"strokePrediction":true,"probability":"high"}''\<close>


section \<open>Properties of validateInputs\<close>


lemma validate_locals_age:
  "fst (validate_locals fd) age =
     (if fd age = JStr '''' \<or> typeof (fd age) \<noteq> ''number''
      then Some (JStr ''Age is required.'')
      else if js_lt (fd age) (JNum (Fin 0)) \<or> js_gt (fd age) (JNum (Fin 120))
      then Some (JStr ''Please enter a valid age (0-120).'') else None)"
  by (simp add: validate_locals_def validate_age_def validate_glucose_def validate_bmi_def)

lemma validate_locals_glucose:
  "fst (validate_locals fd) avgGlucoseLevel =
     (if fd avgGlucoseLevel = JStr '''' \<or> typeof (fd avgGlucoseLevel) \<noteq> ''number''
      then Some (JStr ''Glucose level is required.'')
      else if js_lt (fd avgGlucoseLevel) (JNum (Fin 30))
              \<or> js_gt (fd avgGlucoseLevel) (JNum (Fin 600))
      then Some (JStr ''Value must be between 30 and 600 mg/dL.'') else None)"
  by (simp add: validate_locals_def validate_age_def validate_glucose_def validate_bmi_def)

lemma validate_locals_bmi:
  "fst (validate_locals fd) bmi =
     (if fd bmi = JStr '''' \<or> typeof (fd bmi) \<noteq> ''number''
      then Some (JStr ''BMI is required.'')
      else if js_lt (fd bmi) (JNum (Fin 10)) \<or> js_gt (fd bmi) (JNum (Fin 100))
      then Some (JStr ''Value must be between 10 and 100.'') else None)"
  by (simp add: validate_locals_def validate_age_def validate_glucose_def validate_bmi_def)

lemma validate_locals_other:
  "k \<noteq> age \<Longrightarrow> k \<noteq> avgGlucoseLevel \<Longrightarrow> k \<noteq> bmi \<Longrightarrow> fst (validate_locals fd) k = None"
  by (simp add: validate_locals_def validate_age_def validate_glucose_def validate_bmi_def)

lemma validate_locals_valid:
  "snd (validate_locals fd) =
     (fst (validate_locals fd) age = None \<and> fst (validate_locals fd) avgGlucoseLevel = None
      \<and> fst (validate_locals fd) bmi = None)"
  by (simp add: validate_locals_def validate_age_def validate_glucose_def validate_bmi_def)

lemma validateInputs_eq:
  "validateInputs s = (snd (validate_locals (formData s)),
                       s\<lparr>validationErrors := fst (validate_locals (formData s))\<rparr>)"
  by (simp add: validateInputs_def split_def Let_def)

lemma error_map_empty_iff:
  "(m = Map.empty) = (m age = None \<and> m avgGlucoseLevel = None \<and> m bmi = None \<and>
      (\<forall>k. k \<noteq> age \<longrightarrow> k \<noteq> avgGlucoseLevel \<longrightarrow> k \<noteq> bmi \<longrightarrow> m k = None))"
proof
  assume "m = Map.empty"
  then show "m age = None \<and> m avgGlucoseLevel = None \<and> m bmi = None \<and>
      (\<forall>k. k \<noteq> age \<longrightarrow> k \<noteq> avgGlucoseLevel \<longrightarrow> k \<noteq> bmi \<longrightarrow> m k = None)"
    by simp
next
  assume r: "m age = None \<and> m avgGlucoseLevel = None \<and> m bmi = None \<and>
      (\<forall>k. k \<noteq> age \<longrightarrow> k \<noteq> avgGlucoseLevel \<longrightarrow> k \<noteq> bmi \<longrightarrow> m k = None)"
  show "m = Map.empty"
  proof
    fix k
    show "m k = None"
      using r by (cases k) simp_all
  qed
qed

lemma scenario_A_fields:
  "scenario_A age = JNum (Fin 45)" "scenario_A avgGlucoseLevel = JNum (Fin 105.5)"
  "scenario_A bmi = JNum (Fin 28.4)"
  by (simp_all add: scenario_A_def)

lemma scenario_B_fields:
  "scenario_B age = JNum (Fin 150)" "scenario_B avgGlucoseLevel = JNum (Fin 700)"
  "scenario_B bmi = JNum (Fin 5)"
  by (simp_all add: scenario_B_def)

lemma validate_locals_scenario_A: "validate_locals scenario_A = (Map.empty, True)"
proof -
  have "fst (validate_locals scenario_A) = Map.empty"
    unfolding error_map_empty_iff
    by (simp add: validate_locals_other validate_locals_age validate_locals_glucose
        validate_locals_bmi scenario_A_fields num_gt_def)
  moreover from this have "snd (validate_locals scenario_A)"
    by (simp add: validate_locals_valid)
  ultimately show ?thesis
    by (simp add: prod_eq_iff)
qed

lemma validate_locals_scenario_B:
  "fst (validate_locals scenario_B) age = Some (JStr ''Please enter a valid age (0-120).'')"
  "fst (validate_locals scenario_B) avgGlucoseLevel
     = Some (JStr ''Value must be between 30 and 600 mg/dL.'')"
  "fst (validate_locals scenario_B) bmi = Some (JStr ''Value must be between 10 and 100.'')"
  "\<not> snd (validate_locals scenario_B)"
  by (simp_all add: validate_locals_valid validate_locals_age validate_locals_glucose
      validate_locals_bmi scenario_B_fields num_gt_def)




text \<open>
  Claim C4. What \<^verbatim>\<open>validateInputs\<close> returns and the error map it stores depend on
  \<open>formData\<close> alone; a second call on the state the first one left gives the same verdict
  and the same state; and a call changes no state cell other than the stored error map,
  which is its output.
\<close>

theorem validateInputs_pure:
  "(formData s = formData s' \<longrightarrow>
      fst (validateInputs s) = fst (validateInputs s')
      \<and> validationErrors (snd (validateInputs s)) = validationErrors (snd (validateInputs s')))
   \<and> validateInputs (snd (validateInputs s)) = validateInputs s
   \<and> formData (snd (validateInputs s)) = formData s
   \<and> result (snd (validateInputs s)) = result s
   \<and> loading (snd (validateInputs s)) = loading s
   \<and> error (snd (validateInputs s)) = error s"
  by (simp add: validateInputs_eq)

theorem validateInputs_pure_witness:
  "fst (validateInputs (initial_state\<lparr>formData := scenario_B\<rparr>))
     = fst (validateInputs (initial_state\<lparr>formData := scenario_B, loading := True\<rparr>))
   \<and> validationErrors (snd (validateInputs (initial_state\<lparr>formData := scenario_B\<rparr>)))
     = validationErrors
         (snd (validateInputs (initial_state\<lparr>formData := scenario_B, loading := True\<rparr>)))
   \<and> result (snd (validateInputs (initial_state\<lparr>formData := scenario_B\<rparr>))) = JNull"
  using validateInputs_pure [of "initial_state\<lparr>formData := scenario_B\<rparr>"
      "initial_state\<lparr>formData := scenario_B, loading := True\<rparr>"]
  by (simp add: initial_state_def)





text \<open>
  Claim C6. The boolean that \<^verbatim>\<open>validateInputs\<close> returns is true exactly when the error
  map it stores is empty.
\<close>

theorem validateInputs_valid_iff_empty:
  "fst (validateInputs s) = (validationErrors (snd (validateInputs s)) = Map.empty)"
  unfolding validateInputs_eq
  by (simp add: error_map_empty_iff validate_locals_other validate_locals_valid)

theorem validateInputs_valid_iff_empty_witness:
  "fst (validateInputs (initial_state\<lparr>formData := scenario_A\<rparr>))
   \<and> \<not> fst (validateInputs (initial_state\<lparr>formData := scenario_B\<rparr>))
   \<and> validationErrors (snd (validateInputs (initial_state\<lparr>formData := scenario_B\<rparr>)))
       \<noteq> Map.empty"
  using validateInputs_valid_iff_empty [of "initial_state\<lparr>formData := scenario_B\<rparr>"]
  by (simp add: validateInputs_eq validate_locals_scenario_A validate_locals_scenario_B)


section \<open>Properties of handleInputChange\<close>

text \<open>
  Claim C10. \<^verbatim>\<open>handleInputChange(field, value)\<close> stores the value in that field and
  leaves every other field as it was; afterwards the validation error of that field is
  not truthy (it was cleared, or there was none), and the entry of every other field in
  the error map is as it was. The prediction, the loading flag and the error message are
  untouched.
\<close>

theorem handleInputChange_frame:
  "formData (handleInputChange f v s) f = v
   \<and> (\<forall>g. g \<noteq> f \<longrightarrow> formData (handleInputChange f v s) g = formData s g)
   \<and> \<not> ToBoolean (get_prop (validationErrors (handleInputChange f v s)) f)
   \<and> (\<forall>g. g \<noteq> f \<longrightarrow> validationErrors (handleInputChange f v s) g = validationErrors s g)
   \<and> result (handleInputChange f v s) = result s
   \<and> loading (handleInputChange f v s) = loading s
   \<and> error (handleInputChange f v s) = error s"
  by (simp add: handleInputChange_def Let_def get_prop_def)

theorem handleInputChange_frame_witness:
  "formData (handleInputChange age (JNum (Fin 45))
               (snd (validateInputs (initial_state\<lparr>formData := scenario_B\<rparr>)))) age
     = JNum (Fin 45)
   \<and> formData (handleInputChange age (JNum (Fin 45))
               (snd (validateInputs (initial_state\<lparr>formData := scenario_B\<rparr>)))) bmi
     = JNum (Fin 5)
   \<and> validationErrors (handleInputChange age (JNum (Fin 45))
               (snd (validateInputs (initial_state\<lparr>formData := scenario_B\<rparr>)))) age
     = Some JUndefined
   \<and> validationErrors (handleInputChange age (JNum (Fin 45))
               (snd (validateInputs (initial_state\<lparr>formData := scenario_B\<rparr>)))) bmi
     = Some (JStr ''Value must be between 10 and 100.'')"
  using handleInputChange_frame [of age "JNum (Fin 45)"
      "snd (validateInputs (initial_state\<lparr>formData := scenario_B\<rparr>))"]
  by (simp add: validateInputs_eq validate_locals_scenario_B scenario_B_fields
      handleInputChange_def get_prop_def)


section \<open>Properties of handleSubmit and of the running page\<close>

lemma handleSubmit_begin_invalid:
  "\<not> snd (validate_locals (formData s)) \<Longrightarrow>
   handleSubmit_begin s =
     (s\<lparr>error := Some ''Please correct the errors in the highlighted fields.'',
        result := JNull, validationErrors := fst (validate_locals (formData s))\<rparr>, None)"
  by (simp add: handleSubmit_begin_def validateInputs_eq Let_def)

lemma handleSubmit_begin_valid:
  "snd (validate_locals (formData s)) \<Longrightarrow>
   handleSubmit_begin s =
     (s\<lparr>error := None, result := JNull,
        validationErrors := fst (validate_locals (formData s)), loading := True\<rparr>,
      Some (formData s))"
  by (simp add: handleSubmit_begin_def validateInputs_eq Let_def)

lemma handleSubmit_settle_simps:
  "handleSubmit_settle (Inr v) s = s\<lparr>result := v, loading := False\<rparr>"
  "handleSubmit_settle (Inl e) s =
     s\<lparr>error := Some ''Failed to generate prediction. Please try again.'', loading := False\<rparr>"
  by (simp_all add: handleSubmit_settle_def)

text \<open>
  What every step of the page keeps: at most one call is pending, the loading flag is set
  exactly while one is pending, and while it is set both the prediction and the error
  message are null; so the two are never both non-null.
\<close>

lemma step_keeps:
  assumes "in_flight p \<le> 1"
    and "loading (app p) = (in_flight p = 1)"
    and "loading (app p) \<longrightarrow> result (app p) = JNull \<and> error (app p) = None"
    and "result (app p) = JNull \<or> error (app p) = None"
  shows "in_flight (step p ev) \<le> 1
    \<and> loading (app (step p ev)) = (in_flight (step p ev) = 1)
    \<and> (loading (app (step p ev)) \<longrightarrow>
         result (app (step p ev)) = JNull \<and> error (app (step p ev)) = None)
    \<and> (result (app (step p ev)) = JNull \<or> error (app (step p ev)) = None)"
proof (cases ev)
  case (Change f v)
  with assms show ?thesis
    by (simp add: handleInputChange_def Let_def)
next
  case Click
  show ?thesis
  proof (cases "loading (app p)")
    case True
    with Click assms show ?thesis by simp
  next
    case idle: False
    with assms have z: "in_flight p = 0" by auto
    show ?thesis
    proof (cases "snd (validate_locals (formData (app p)))")
      case True
      with Click idle z show ?thesis
        by (simp add: handleSubmit_begin_valid)
    next
      case False
      with Click idle z show ?thesis
        by (simp add: handleSubmit_begin_invalid)
    qed
  qed
next
  case (Settled r)
  show ?thesis
  proof (cases "in_flight p = 0")
    case True
    with Settled assms show ?thesis by simp
  next
    case False
    with assms have one: "in_flight p = 1" and l: "loading (app p)" by auto
    with assms have clear: "result (app p) = JNull" "error (app p) = None" by auto
    from Settled one clear show ?thesis
      by (cases r) (simp_all add: handleSubmit_settle_simps)
  qed
qed

lemma run_snoc: "run (evs @ [ev]) = step (run evs) ev"
  by (simp add: run_def)

lemma run_keeps:
  "in_flight (run evs) \<le> 1
   \<and> loading (app (run evs)) = (in_flight (run evs) = 1)
   \<and> (loading (app (run evs)) \<longrightarrow>
        result (app (run evs)) = JNull \<and> error (app (run evs)) = None)
   \<and> (result (app (run evs)) = JNull \<or> error (app (run evs)) = None)"
proof (induction evs rule: rev_induct)
  case Nil
  show ?case
    by (simp add: run_def initial_page_def initial_state_def)
next
  case (snoc ev evs)
  then show ?case
    unfolding run_snoc by (intro step_keeps) simp_all
qed

text \<open>The page after the form has been filled with the input of scenario A.\<close>

lemma run_fill_A:
  "run fill_A = \<lparr> app = initial_state\<lparr>formData := scenario_A\<rparr>, issued = [], in_flight = 0 \<rparr>"
  by (simp add: fill_A_def run_def initial_page_def initial_state_def handleInputChange_def
      get_prop_def scenario_A_def)

lemma run_submit_A:
  "run (fill_A @ [Click])
   = \<lparr> app = initial_state\<lparr>formData := scenario_A, loading := True\<rparr>,
       issued = [scenario_A], in_flight = 1 \<rparr>"
  unfolding run_snoc run_fill_A
  by (simp add: handleSubmit_begin_valid validate_locals_scenario_A initial_state_def)


text \<open>
  Claim C7. When the button is enabled and \<^verbatim>\<open>validateInputs\<close> reports invalid, a click
  makes no remote call (\<^verbatim>\<open>handleSubmit\<close> returns before \<^verbatim>\<open>predictStrokeRisk\<close>, the
  list of issued calls and the number of pending ones are unchanged), the page stays idle
  (not loading), the error map of the validator is stored, and the one summary message is
  set.
\<close>

theorem submit_invalid_stays_idle:
  assumes "\<not> loading (app p)" and "\<not> fst (validateInputs (app p))"
  shows "snd (handleSubmit_begin (app p)) = None
    \<and> issued (step p Click) = issued p
    \<and> in_flight (step p Click) = in_flight p
    \<and> \<not> loading (app (step p Click))
    \<and> validationErrors (app (step p Click)) = validationErrors (snd (validateInputs (app p)))
    \<and> error (app (step p Click))
        = Some ''Please correct the errors in the highlighted fields.''
    \<and> result (app (step p Click)) = JNull"
proof -
  from assms(2) have inv: "\<not> snd (validate_locals (formData (app p)))"
    by (simp add: validateInputs_eq)
  with assms(1) show ?thesis
    by (simp add: handleSubmit_begin_invalid validateInputs_eq)
qed

theorem submit_invalid_stays_idle_witness:
  "\<not> loading (app initial_page) \<and> \<not> fst (validateInputs (app initial_page))
   \<and> issued (step initial_page Click) = []
   \<and> in_flight (step initial_page Click) = 0
   \<and> \<not> loading (app (step initial_page Click))
   \<and> validationErrors (app (step initial_page Click)) age = Some (JStr ''Age is required.'')
   \<and> error (app (step initial_page Click))
       = Some ''Please correct the errors in the highlighted fields.''"
proof -
  have l: "\<not> loading (app initial_page)"
    by (simp add: initial_page_def initial_state_def)
  have v: "\<not> fst (validateInputs (app initial_page))"
    by (simp add: initial_page_def initial_state_def validateInputs_eq validate_locals_valid
        validate_locals_age initial_formData_def)
  have e: "validationErrors (snd (validateInputs (app initial_page))) age
      = Some (JStr ''Age is required.'')"
    by (simp add: initial_page_def initial_state_def validateInputs_eq validate_locals_age
        initial_formData_def)
  from submit_invalid_stays_idle [OF l v] l v e show ?thesis
    by (simp add: initial_page_def)
qed


text \<open>
  Claim C8. In every state the page can reach, at most one prediction request is pending;
  and while one is pending the page is loading, the button is disabled, and a click
  changes nothing: no second call is issued.
\<close>

theorem at_most_one_in_flight:
  "in_flight (run evs) \<le> 1
   \<and> (0 < in_flight (run evs) \<longrightarrow>
        loading (app (run evs)) \<and> step (run evs) Click = run evs)"
proof -
  have k: "in_flight (run evs) \<le> 1" "loading (app (run evs)) = (in_flight (run evs) = 1)"
    using run_keeps [of evs] by simp_all
  have "0 < in_flight (run evs) \<longrightarrow> loading (app (run evs)) \<and> step (run evs) Click = run evs"
  proof
    assume "0 < in_flight (run evs)"
    with k have "loading (app (run evs))" by auto
    then show "loading (app (run evs)) \<and> step (run evs) Click = run evs" by simp
  qed
  with k(1) show ?thesis by simp
qed

theorem at_most_one_in_flight_witness:
  "in_flight (run (fill_A @ [Click])) = 1
   \<and> issued (step (run (fill_A @ [Click])) Click) = [scenario_A]"
  using at_most_one_in_flight [of "fill_A @ [Click]"]
  by (simp add: run_submit_A)


text \<open>
  Claim C9. In every state the page can reach, the stored prediction and the stored error
  message are not both non-null. A submission first clears both (after the synchronous
  part of \<^verbatim>\<open>handleSubmit\<close> the prediction is null, and the message is null unless the
  inputs were invalid), and when its promise settles on cleared cells exactly one of the
  two is set.
\<close>

theorem result_error_exclusive:
  "(result (app (run evs)) = JNull \<or> error (app (run evs)) = None)
   \<and> result (fst (handleSubmit_begin s)) = JNull
   \<and> (snd (handleSubmit_begin s) \<noteq> None \<longrightarrow> error (fst (handleSubmit_begin s)) = None)
   \<and> (result s = JNull \<and> error s = None \<longrightarrow>
        result (handleSubmit_settle r s) = JNull \<or> error (handleSubmit_settle r s) = None)"
proof -
  have a: "result (app (run evs)) = JNull \<or> error (app (run evs)) = None"
    using run_keeps [of evs] by simp
  have b: "result (fst (handleSubmit_begin s)) = JNull
      \<and> (snd (handleSubmit_begin s) \<noteq> None \<longrightarrow> error (fst (handleSubmit_begin s)) = None)"
    by (cases "snd (validate_locals (formData s))")
      (simp_all add: handleSubmit_begin_valid handleSubmit_begin_invalid)
  have c: "result s = JNull \<and> error s = None \<longrightarrow>
        result (handleSubmit_settle r s) = JNull \<or> error (handleSubmit_settle r s) = None"
    by (cases r) (simp_all add: handleSubmit_settle_simps)
  from a b c show ?thesis by blast
qed

theorem result_error_exclusive_witness:
  "result (app (run (fill_A @ [Click]))) = JNull
   \<and> error (app (run (fill_A @ [Click]))) = None
   \<and> result (handleSubmit_settle (Inr (JBool True)) initial_state) = JBool True
   \<and> error (handleSubmit_settle (Inr (JBool True)) initial_state) = None"
  using result_error_exclusive [of "fill_A @ [Click]"
      initial_state "Inr (JBool True)"]
  by (simp add: run_submit_A handleSubmit_settle_simps initial_state_def)


section \<open>Properties of predictStrokeRisk\<close>

lemma JSON_parse_well_formed_reply:
  "JSON_parse well_formed_reply
     = Inr (JObj [(''strokePrediction'', JBool True), (''probability'', JNum (Fin 72)),
                  (''riskLevel'', JStr ''High Risk'')])"
  by code_simp

lemma JSON_parse_out_of_range_reply:
  "JSON_parse out_of_range_reply
     = Inr (JObj [(''strokePrediction'', JBool True), (''probability'', JNum (Fin 172)),
                  (''riskLevel'', JStr ''High Risk'')])"
  by code_simp

lemma JSON_parse_ill_shaped_reply:
  "JSON_parse ill_shaped_reply
     = Inr (JObj [(''strokePrediction'', JBool True), (''probability'', JStr ''high'')])"
  by code_simp

lemma JSON_parse_not_json:
  "JSON_parse ''not json'' = Inl (Exn ''SyntaxError'' ''Unexpected token in JSON'')"
  by code_simp

lemma reply_nonempty:
  "well_formed_reply \<noteq> []" "out_of_range_reply \<noteq> []" "ill_shaped_reply \<noteq> []"
  by (simp_all add: well_formed_reply_def out_of_range_reply_def ill_shaped_reply_def)

lemma JSON_parse_fails_with_SyntaxError:
  "isl (JSON_parse t) = (JSON_parse t = Inl (Exn ''SyntaxError'' ''Unexpected token in JSON''))"
  by (auto simp: JSON_parse_def split: option.splits)

lemma predictStrokeRisk_nonempty:
  "t \<noteq> [] \<Longrightarrow> predictStrokeRisk data (Resolved (Some t)) = JSON_parse t"
  by (simp add: predictStrokeRisk_def)


text \<open>
  Claim C2. On the well-formed reply of the specification \<^verbatim>\<open>predictStrokeRisk\<close> returns
  the object with exactly the three values of the text. Whatever a non-empty reply parses
  to is returned as it is: nothing is checked or clamped, and a probability of 172 comes
  back as 172.
\<close>

theorem predictStrokeRisk_well_formed:
  "predictStrokeRisk data (Resolved (Some well_formed_reply))
     = Inr (JObj [(''strokePrediction'', JBool True), (''probability'', JNum (Fin 72)),
                  (''riskLevel'', JStr ''High Risk'')])
   \<and> predictStrokeRisk data (Resolved (Some (c # cs))) = JSON_parse (c # cs)
   \<and> predictStrokeRisk data (Resolved (Some out_of_range_reply))
     = Inr (JObj [(''strokePrediction'', JBool True), (''probability'', JNum (Fin 172)),
                  (''riskLevel'', JStr ''High Risk'')])"
  by (simp add: predictStrokeRisk_nonempty reply_nonempty JSON_parse_well_formed_reply
      JSON_parse_out_of_range_reply)

theorem predictStrokeRisk_well_formed_witness:
  "predictStrokeRisk scenario_A (Resolved (Some well_formed_reply))
     = Inr (JObj [(''strokePrediction'', JBool True), (''probability'', JNum (Fin 72)),
                  (''riskLevel'', JStr ''High Risk'')])
   \<and> conforms_responseSchema
       (JObj [(''strokePrediction'', JBool True), (''probability'', JNum (Fin 72)),
              (''riskLevel'', JStr ''High Risk'')])"
proof -
  have "conforms_responseSchema
       (JObj [(''strokePrediction'', JBool True), (''probability'', JNum (Fin 72)),
              (''riskLevel'', JStr ''High Risk'')])"
    by simp
  with predictStrokeRisk_well_formed [where data = scenario_A and c = "CHR ''{''"
      and cs = "''}''"]
  show ?thesis
    by blast
qed


text \<open>
  Claim C3, as the code has it. \<^verbatim>\<open>predictStrokeRisk\<close> fails in exactly three ways: a
  rejection of the remote call is rethrown as it is; a reply without text, or with the
  empty text, fails with the error \<open>No response from AI model\<close>; and on a non-empty text
  the outcome is that of \<^verbatim>\<open>JSON.parse\<close>, whose only failure is a \<open>SyntaxError\<close> that
  leaves the function unchanged. Every text that is valid JSON succeeds with the parsed
  value, of whatever shape. The errors for the empty text and for \<open>not json\<close> differ.
\<close>

theorem predictStrokeRisk_failures:
  "predictStrokeRisk data (Rejected e) = Inl e
   \<and> predictStrokeRisk data (Resolved None) = Inl (Exn ''Error'' ''No response from AI model'')
   \<and> predictStrokeRisk data (Resolved (Some []))
       = Inl (Exn ''Error'' ''No response from AI model'')
   \<and> predictStrokeRisk data (Resolved (Some (c # cs))) = JSON_parse (c # cs)
   \<and> isl (JSON_parse (c # cs))
       = (JSON_parse (c # cs) = Inl (Exn ''SyntaxError'' ''Unexpected token in JSON''))
   \<and> predictStrokeRisk data (Resolved (Some ''not json''))
       = Inl (Exn ''SyntaxError'' ''Unexpected token in JSON'')
   \<and> predictStrokeRisk data (Resolved (Some ''not json''))
       \<noteq> predictStrokeRisk data (Resolved (Some ''''))"
proof -
  have n: "predictStrokeRisk data (Resolved (Some ''not json''))
       = Inl (Exn ''SyntaxError'' ''Unexpected token in JSON'')"
    by (simp add: predictStrokeRisk_nonempty JSON_parse_not_json)
  have e: "predictStrokeRisk data (Resolved (Some []))
       = Inl (Exn ''Error'' ''No response from AI model'')"
    by (simp add: predictStrokeRisk_def)
  have d: "predictStrokeRisk data (Resolved (Some ''not json''))
       \<noteq> predictStrokeRisk data (Resolved (Some ''''))"
    unfolding n e by simp
  have r: "predictStrokeRisk data (Rejected e) = Inl e
    \<and> predictStrokeRisk data (Resolved None) = Inl (Exn ''Error'' ''No response from AI model'')"
    by (simp add: predictStrokeRisk_def)
  have p: "predictStrokeRisk data (Resolved (Some (c # cs))) = JSON_parse (c # cs)"
    by (simp add: predictStrokeRisk_nonempty)
  from r e p n d JSON_parse_fails_with_SyntaxError [of "c # cs"] show ?thesis
    by blast
qed

theorem predictStrokeRisk_failures_witness:
  "predictStrokeRisk scenario_A (Rejected (Exn ''ApiError'' ''quota exceeded''))
     = Inl (Exn ''ApiError'' ''quota exceeded'')
   \<and> predictStrokeRisk scenario_A (Resolved (Some ''''))
     = Inl (Exn ''Error'' ''No response from AI model'')
   \<and> predictStrokeRisk scenario_A (Resolved (Some ''not json''))
     = Inl (Exn ''SyntaxError'' ''Unexpected token in JSON'')"
  using predictStrokeRisk_failures [where data = scenario_A
      and e = "Exn ''ApiError'' ''quota exceeded''" and c = "CHR ''n''" and cs = "''ot json''"]
  by blast

text \<open>
  Claim C3 as the specification words it fails on a reply that is valid JSON of another
  shape than the \<^verbatim>\<open>responseSchema\<close>: \<^verbatim>\<open>predictStrokeRisk\<close> does not fail, it returns the
  parsed object.
\<close>

theorem predictStrokeRisk_failures_counterexample:
  "\<not> conforms_responseSchema
       (JObj [(''strokePrediction'', JBool True), (''probability'', JStr ''high'')])
   \<and> predictStrokeRisk scenario_A (Resolved (Some ill_shaped_reply))
     = Inr (JObj [(''strokePrediction'', JBool True), (''probability'', JStr ''high'')])"
  by (simp add: predictStrokeRisk_nonempty reply_nonempty JSON_parse_ill_shaped_reply)


section \<open>The numeric inputs\<close>



text \<open>
  The one value on which the rule of \<^verbatim>\<open>validateInputs\<close> and the range of the
  specification part: \<open>NaN\<close> has type number and fails both comparisons, so no error is
  stored for it. It is outside what the form stores in a numeric field.
\<close>

lemma validateInputs_NaN:
  "formData s age = JNum NaN \<Longrightarrow> validationErrors (snd (validateInputs s)) age = None"
  by (simp add: validateInputs_eq validate_locals_age num_gt_def)



end
